theory Spec2Isabelle
  imports Complex_Main
begin

section \<open>Data model (src/types/index.ts)\<close>

text \<open>
  \<^verbatim>\<open>type Point = { time: number; value: number; i: number }\<close>,
  \<^verbatim>\<open>type TimeSeries = { label: string; points: Point[] }\<close>,
  \<^verbatim>\<open>type Dimensions = { width: number; height: number }\<close>.
  Times are epoch milliseconds as \<open>Date.parse\<close> yields them and \<open>i\<close> is the
  position \<open>toPoints\<close> assigns, both integers; values and pixel lengths are
  finite numbers, modelled as reals (NaN and the infinities are left out).
\<close>

record Point =
  time :: int
  "value" :: real
  i :: int

record TimeSeries =
  label :: string
  points :: "Point list"

record Dimensions =
  width :: real
  height :: real

type_synonym DayBoundaries = "(int \<times> int) list"

text \<open>The exceptions the JavaScript run time and the Temporal library raise.\<close>

datatype error = RangeError | TypeError

text \<open>
  \<open>xs[k]\<close> on a JavaScript array: \<open>undefined\<close> (here \<open>None\<close>) for every index
  that is not a position of the array, negative ones included.
\<close>

definition elemAt :: "'a list \<Rightarrow> int \<Rightarrow> 'a option" where
  "elemAt xs k = (if 0 \<le> k \<and> k < int (length xs) then Some (xs ! nat k) else None)"


section \<open>Time zone day segmenter: \<open>getDayBoundaries\<close>\<close>

text \<open>
  The calendar arithmetic is done by the Temporal library in the zone
  \<open>America/New_York\<close>.  A zoned date-time of that one zone (ISO calendar) is
  determined by its instant, so it is represented by its epoch milliseconds,
  and the two library operations the function uses are parameters:
  \<open>startOfDay\<close> (\<open>ZonedDateTime.startOfDay()\<close>) and \<open>addP1D\<close>
  (\<open>ZonedDateTime.add("P1D")\<close>).  Instants are taken inside the range Temporal
  can represent, where both operations return.
\<close>

record TimeZone =
  startOfDay :: "int \<Rightarrow> int"
  addP1D :: "int \<Rightarrow> int"

text \<open>
  \<open>Temporal.Instant.fromEpochMilliseconds(x).toZonedDateTimeISO(zone)\<close>: the
  argument is a number, or \<open>undefined\<close> (\<open>None\<close>) when the caller passes the
  ends of an empty extent; \<open>undefined\<close> converts to NaN, which is no integer,
  and the library throws a RangeError.
\<close>

definition fromEpochMilliseconds :: "int option \<Rightarrow> error + int" where
  "fromEpochMilliseconds x = (case x of None \<Rightarrow> Inl RangeError | Some t \<Rightarrow> Inr t)"

text \<open>
  The \<open>while\<close> loop of \<open>getDayBoundaries\<close>; \<open>None\<close> is a loop that never
  leaves.
\<close>

partial_function (option) boundaryLoop ::
  "TimeZone \<Rightarrow> int \<Rightarrow> int \<Rightarrow> DayBoundaries \<Rightarrow> DayBoundaries option" where
  "boundaryLoop tz endMs currentBoundary boundaries =
     (if endMs - currentBoundary > 0 then
        (let boundaryStart = currentBoundary;
             currentBoundary' = addP1D tz currentBoundary;
             boundaryEnd = currentBoundary'
         in boundaryLoop tz endMs currentBoundary' (boundaries @ [(boundaryStart, boundaryEnd)]))
      else Some boundaries)"

declare boundaryLoop.simps [code]

definition getDayBoundaries ::
  "TimeZone \<Rightarrow> int option \<Rightarrow> int option \<Rightarrow> (error + DayBoundaries) option" where
  "getDayBoundaries tz startTime endTime =
     (case fromEpochMilliseconds startTime of
        Inl e \<Rightarrow> Some (Inl e)
      | Inr startDateTime \<Rightarrow>
          (case fromEpochMilliseconds endTime of
             Inl e \<Rightarrow> Some (Inl e)
           | Inr endDateTime \<Rightarrow>
               map_option Inr
                 (boundaryLoop tz endDateTime (startOfDay tz startDateTime) [])))"

text \<open>
  What the library guarantees of a zone whose days begin at an instant that
  exists (in \<open>America/New_York\<close> the clock changes at 02:00, never at
  midnight): the start of \<open>t\<close>'s day is not after \<open>t\<close> and is its own start
  of day; \<open>t\<close> lies before the start of the next day; a day later than a
  start of day is again a start of day; and every instant between a start of
  day and the next one belongs to that day.  Days need not last 24 hours.
\<close>

definition calendar_zone :: "TimeZone \<Rightarrow> bool" where
  "calendar_zone tz \<longleftrightarrow>
     (\<forall>t. startOfDay tz t \<le> t
        \<and> startOfDay tz (startOfDay tz t) = startOfDay tz t
        \<and> t < addP1D tz (startOfDay tz t)
        \<and> startOfDay tz (addP1D tz (startOfDay tz t)) = addP1D tz (startOfDay tz t))
   \<and> (\<forall>b t. startOfDay tz b = b \<and> b \<le> t \<and> t < addP1D tz b \<longrightarrow> startOfDay tz t = b)"

text \<open>
  The zone \<open>America/New_York\<close> with the two clock changes of 2022 (and
  standard time before and after them): daylight saving time, UTC-4, from
  2022-03-13 07:00 UTC to 2022-11-06 06:00 UTC, and standard time, UTC-5,
  otherwise.  The wall clock of an instant \<open>t\<close> shows \<open>t\<close> minus the offset;
  \<open>resolve2022\<close> is the instant at which the wall clock shows \<open>l\<close>, the earlier
  one when it shows \<open>l\<close> twice and the one an hour on when it never does
  (Temporal's "compatible" choice).  The start of a day is the instant of that
  day's midnight, and a day is added on the wall clock.
\<close>

definition msPerDay :: int where
  "msPerDay = 86400000"

definition easternOffset2022 :: "int \<Rightarrow> int" where
  "easternOffset2022 t =
     (if 1647154800000 \<le> t \<and> t < 1667714400000 then 14400000 else 18000000)"

definition resolve2022 :: "int \<Rightarrow> int" where
  "resolve2022 l =
     (if easternOffset2022 (l + 14400000) = 14400000 then l + 14400000 else l + 18000000)"

definition eastern2022 :: TimeZone where
  "eastern2022 =
     \<lparr> startOfDay = (\<lambda>t. resolve2022 (((t - easternOffset2022 t) div msPerDay) * msPerDay)),
       addP1D = (\<lambda>t. resolve2022 ((t - easternOffset2022 t) + msPerDay)) \<rparr>"

text \<open>The instant at which the day number \<open>k\<close> (counted from 1970-01-01) begins.\<close>

definition midnight2022 :: "int \<Rightarrow> int" where
  "midnight2022 k = k * 86400000 + (if 19065 \<le> k \<and> k \<le> 19302 then 14400000 else 18000000)"

text \<open>A list of intervals in which each one starts where the one before ends.\<close>

fun contiguous_from :: "int \<Rightarrow> DayBoundaries \<Rightarrow> bool" where
  "contiguous_from c [] = True"
| "contiguous_from c ((a, b) # ds) = (a = c \<and> contiguous_from b ds)"

definition is_day :: "TimeZone \<Rightarrow> int \<times> int \<Rightarrow> bool" where
  "is_day tz d \<longleftrightarrow> startOfDay tz (fst d) = fst d \<and> snd d = addP1D tz (fst d)"


section \<open>The d3-array helpers the detectors use\<close>

text \<open>
  \<open>minIndex(values, valueof)\<close> of d3-array: one pass that keeps the least value
  seen so far (\<open>min\<close>, at first \<open>undefined\<close>), its position \<open>minIndex\<close> (at
  first -1) and the running \<open>index\<close>; a position replaces the kept one only
  when its value is strictly smaller, so the first least value wins and an
  empty array gives -1.  \<open>maxIndex\<close> is the same with \<open>max < value\<close>.
\<close>

fun minIndexLoop :: "('a \<Rightarrow> real) \<Rightarrow> 'a list \<Rightarrow> real option \<Rightarrow> int \<Rightarrow> int \<Rightarrow> int" where
  "minIndexLoop valueof [] mn minIdx index = minIdx"
| "minIndexLoop valueof (d # ds) mn minIdx index =
     (if (case mn of None \<Rightarrow> True | Some m \<Rightarrow> m > valueof d)
      then minIndexLoop valueof ds (Some (valueof d)) (index + 1) (index + 1)
      else minIndexLoop valueof ds mn minIdx (index + 1))"

definition minIndex :: "'a list \<Rightarrow> ('a \<Rightarrow> real) \<Rightarrow> int" where
  "minIndex values valueof = minIndexLoop valueof values None (- 1) (- 1)"

fun maxIndexLoop :: "('a \<Rightarrow> real) \<Rightarrow> 'a list \<Rightarrow> real option \<Rightarrow> int \<Rightarrow> int \<Rightarrow> int" where
  "maxIndexLoop valueof [] mx maxIdx index = maxIdx"
| "maxIndexLoop valueof (d # ds) mx maxIdx index =
     (if (case mx of None \<Rightarrow> True | Some m \<Rightarrow> m < valueof d)
      then maxIndexLoop valueof ds (Some (valueof d)) (index + 1) (index + 1)
      else maxIndexLoop valueof ds mx maxIdx (index + 1))"

definition maxIndex :: "'a list \<Rightarrow> ('a \<Rightarrow> real) \<Rightarrow> int" where
  "maxIndex values valueof = maxIndexLoop valueof values None (- 1) (- 1)"

text \<open>
  \<open>Array.prototype.filter\<close> with a callback of the element, its position and
  the array that is being filtered.
\<close>

definition filteri :: "('a \<Rightarrow> int \<Rightarrow> 'a list \<Rightarrow> bool) \<Rightarrow> 'a list \<Rightarrow> 'a list" where
  "filteri f xs = map fst (filter (\<lambda>(x, k). f x k xs) (zip xs (map int [0..<length xs])))"


section \<open>Extreme point detector, one minimum and one maximum per day\<close>

text \<open>
  \<open>getExtremePoints(dayBoundaries, points)\<close> of
  \<open>src/pages/location/[coordinates].tsx\<close>.  The result is declared
  \<open>Point[]\<close>, but an entry is read with \<open>pointsInBoundary[...]\<close> and is
  \<open>undefined\<close> (\<open>None\<close>) when the index is -1.
\<close>

definition extremesInBoundary :: "Point list \<Rightarrow> int \<times> int \<Rightarrow> Point option list" where
  "extremesInBoundary pts b =
     (case b of (boundaryStart, boundaryEnd) \<Rightarrow>
        (let pointsInBoundary =
               filter (\<lambda>p. time p \<ge> boundaryStart \<and> time p < boundaryEnd) pts
         in [elemAt pointsInBoundary (minIndex pointsInBoundary value),
             elemAt pointsInBoundary (maxIndex pointsInBoundary value)]))"

definition getExtremePoints_coordinates :: "DayBoundaries \<Rightarrow> Point list \<Rightarrow> Point option list" where
  "getExtremePoints_coordinates dayBoundaries pts =
     concat (map (extremesInBoundary pts) dayBoundaries)"


section \<open>Extreme point detector, inflections\<close>

text \<open>
  \<open>getExtremePoints(points)\<close> of the chart component.  \<open>points[k]?.value\<close> is
  \<open>undefined\<close> outside the array, and a comparison of a number with
  \<open>undefined\<close> is false; \<open>ps[k - 1]?.i !== p.i - 1\<close> is true when the left
  side is \<open>undefined\<close>.
\<close>

definition valueAt :: "Point list \<Rightarrow> int \<Rightarrow> real option" where
  "valueAt pts k = map_option value (elemAt pts k)"

definition numLess :: "real \<Rightarrow> real option \<Rightarrow> bool" where
  "numLess a b = (case b of None \<Rightarrow> False | Some y \<Rightarrow> a < y)"

definition numGreater :: "real \<Rightarrow> real option \<Rightarrow> bool" where
  "numGreater a b = (case b of None \<Rightarrow> False | Some y \<Rightarrow> a > y)"

definition isInflection :: "Point \<Rightarrow> int \<Rightarrow> Point list \<Rightarrow> bool" where
  "isInflection p k pts \<longleftrightarrow>
     (numLess (value p) (valueAt pts (k - 1)) \<and> numLess (value p) (valueAt pts (k + 1)))
   \<or> (numGreater (value p) (valueAt pts (k - 1))
        \<and> numGreater (value p) (valueAt pts (k + 1)))"

definition notTooClose :: "Point \<Rightarrow> int \<Rightarrow> Point list \<Rightarrow> bool" where
  "notTooClose p k ps \<longleftrightarrow> map_option i (elemAt ps (k - 1)) \<noteq> Some (i p - 1)"

definition inflectionPoints :: "Point list \<Rightarrow> Point list" where
  "inflectionPoints pts = filteri isInflection pts"

definition getExtremePoints :: "Point list \<Rightarrow> Point list" where
  "getExtremePoints pts = filteri notTooClose (inflectionPoints pts)"


section \<open>Label placement resolver: \<open>getPointLabelPositioning\<close>\<close>

datatype TextAnchor = AnchorStart | AnchorMiddle | AnchorEnd

datatype AlignmentBaseline = BaselineHanging | BaselineMiddle

record Positioning =
  dx :: real
  dy :: real
  textAnchor :: "TextAnchor option"
  alignmentBaseline :: "AlignmentBaseline option"

text \<open>
  The function exists twice with the same body, with the offset 10 in the
  chart component (\<open>const D = 10\<close>) and 6 written out in
  \<open>[coordinates].tsx\<close>; \<open>D\<close> is the parameter here.  Reading \<open>.value\<close> of a
  neighbour that is not in the array throws a TypeError.
\<close>

definition pointLabelPositioning :: "real \<Rightarrow> Point \<Rightarrow> Point list \<Rightarrow> error + Positioning" where
  "pointLabelPositioning D pt ps =
     (if i pt = 0 \<or> i pt = int (length ps) - 1 then
        Inr \<lparr>dx = 0, dy = 0, textAnchor = None, alignmentBaseline = None\<rparr>
      else
        (case elemAt ps (i pt - 1) of
           None \<Rightarrow> Inl TypeError
         | Some q0 \<Rightarrow>
             (case elemAt ps (i pt + 1) of
                None \<Rightarrow> Inl TypeError
              | Some q1 \<Rightarrow>
                  (let p = value pt; p0 = value q0; p1 = value q1 in
                   if p0 < p \<and> p1 < p then
                     Inr \<lparr>dx = 0, dy = - D, textAnchor = Some AnchorMiddle,
                          alignmentBaseline = None\<rparr>
                   else if p0 > p \<and> p1 > p then
                     Inr \<lparr>dx = 0, dy = D, textAnchor = Some AnchorMiddle,
                          alignmentBaseline = Some BaselineHanging\<rparr>
                   else if p0 < p \<and> p1 > p then
                     Inr \<lparr>dx = - D, dy = - D, textAnchor = Some AnchorEnd,
                          alignmentBaseline = Some BaselineMiddle\<rparr>
                   else if p0 > p \<and> p1 < p then
                     Inr \<lparr>dx = D, dy = - D, textAnchor = Some AnchorStart,
                          alignmentBaseline = Some BaselineMiddle\<rparr>
                   else
                     Inr \<lparr>dx = 0, dy = 0, textAnchor = None, alignmentBaseline = None\<rparr>))))"

definition getPointLabelPositioning :: "Point \<Rightarrow> Point list \<Rightarrow> error + Positioning" where
  "getPointLabelPositioning = pointLabelPositioning 10"

text \<open>
  In \<open>[coordinates].tsx\<close> the argument comes from the per-day detector and may
  be \<open>undefined\<close>; the parameter pattern \<open>{ i, value: p }\<close> then throws a
  TypeError.
\<close>

definition getPointLabelPositioning_coordinates ::
  "Point option \<Rightarrow> Point list \<Rightarrow> error + Positioning" where
  "getPointLabelPositioning_coordinates pt ps =
     (case pt of None \<Rightarrow> Inl TypeError | Some q \<Rightarrow> pointLabelPositioning 6 q ps)"


section \<open>Scene composer: domains of the charts\<close>

text \<open>
  \<open>extent(values, valueof)\<close> of d3-array: \<open>min\<close> and \<open>max\<close> start
  \<open>undefined\<close>, the first value sets both, later values move one or the
  other; the result is the pair, \<open>[undefined, undefined]\<close> for an empty array.
\<close>

fun extentLoop :: "('a \<Rightarrow> 'b::linorder) \<Rightarrow> 'a list \<Rightarrow> ('b \<times> 'b) option \<Rightarrow> ('b \<times> 'b) option" where
  "extentLoop valueof [] acc = acc"
| "extentLoop valueof (d # ds) None = extentLoop valueof ds (Some (valueof d, valueof d))"
| "extentLoop valueof (d # ds) (Some (mn, mx)) =
     extentLoop valueof ds
       (Some (if mn > valueof d then valueof d else mn, if mx < valueof d then valueof d else mx))"

definition extent :: "'a list \<Rightarrow> ('a \<Rightarrow> 'b::linorder) \<Rightarrow> 'b option \<times> 'b option" where
  "extent values valueof =
     (case extentLoop valueof values None of
        None \<Rightarrow> (None, None)
      | Some (mn, mx) \<Rightarrow> (Some mn, Some mx))"

text \<open>
  The first steps of \<open>Chart\<close>: the two domains over the points of all series,
  then the day boundaries between the ends of the time domain (the cast
  \<open>as [number, number]\<close> lets \<open>undefined\<close> ends through).
\<close>

definition Chart_xDomain :: "TimeSeries list \<Rightarrow> int option \<times> int option" where
  "Chart_xDomain tss = (let allTimes = concat (map points tss) in extent allTimes time)"

definition Chart_yDomain :: "TimeSeries list \<Rightarrow> real option \<times> real option" where
  "Chart_yDomain tss = (let allValues = concat (map points tss) in extent allValues value)"

definition Chart_dayBoundaries :: "TimeZone \<Rightarrow> TimeSeries list \<Rightarrow> (error + DayBoundaries) option" where
  "Chart_dayBoundaries tz tss =
     (let xDomain = Chart_xDomain tss in getDayBoundaries tz (fst xDomain) (snd xDomain))"

text \<open>Rendering a list of components stops at the first one that throws.\<close>

fun renderAll :: "(error + 'a) list \<Rightarrow> error + 'a list" where
  "renderAll [] = Inr []"
| "renderAll (Inl e # rs) = Inl e"
| "renderAll (Inr a # rs) = (case renderAll rs of Inl e \<Rightarrow> Inl e | Inr as \<Rightarrow> Inr (a # as))"

text \<open>
  The label step of the chart in \<open>[coordinates].tsx\<close>: the placement of every
  entry the per-day detector returned, for the series it came from.
\<close>

definition pointLabelPositionings_coordinates ::
  "DayBoundaries \<Rightarrow> Point list \<Rightarrow> error + Positioning list" where
  "pointLabelPositionings_coordinates dayBoundaries pts =
     renderAll (map (\<lambda>p. getPointLabelPositioning_coordinates p pts)
                    (getExtremePoints_coordinates dayBoundaries pts))"

section \<open>Scene composer: the chart component\<close>

text \<open>
  What the component takes from d3, as parameters: the two scale constructors
  with their domain (whose ends may be \<open>undefined\<close>) and range,
  \<open>scaleSequential(interpolateTurbo).domain(d)\<close>, and the list
  \<open>range(d0, d1, (d1 - d0) / 10)\<close> of the values at which \<open>TsPath\<close> puts a
  gradient stop.
\<close>

record D3 =
  scaleTime :: "int option \<times> int option \<Rightarrow> real \<times> real \<Rightarrow> int \<Rightarrow> real"
  scaleLinear :: "real option \<times> real option \<Rightarrow> real \<times> real \<Rightarrow> real \<Rightarrow> real"
  scaleSequential_interpolateTurbo :: "real \<times> real \<Rightarrow> real \<Rightarrow> string"
  range_tenths :: "real option \<times> real option \<Rightarrow> real list"

text \<open>
  \<open>COLOR_SCALE_BY_TS_LABEL[l]\<close>: the table has the two keys \<open>Temperature\<close>
  and \<open>Dew Point\<close>.  For any other name the read gives what every object
  inherits under that name (\<open>inherited\<close>, for instance \<open>toString\<close>), and
  \<open>undefined\<close> (\<open>None\<close>) when there is no such thing.  Calling \<open>undefined\<close>
  throws a TypeError.  What is read is called in two ways: \<open>Chart\<close> calls it
  on the table (\<open>COLOR_SCALE_BY_TS_LABEL[l](v)\<close>) and \<open>TsPath\<close> calls it alone
  (\<open>colorScale(y)\<close>); a d3 scale answers both calls alike, an inherited member
  need not.
\<close>

record ColorScale =
  onTable :: "real \<Rightarrow> error + string"
  alone :: "real \<Rightarrow> error + string"

definition COLOR_SCALE_BY_TS_LABEL ::
  "D3 \<Rightarrow> (string \<Rightarrow> ColorScale option) \<Rightarrow> string \<Rightarrow> ColorScale option" where
  "COLOR_SCALE_BY_TS_LABEL d3 inherited l =
     (if l = ''Temperature'' then
        Some \<lparr>onTable = (\<lambda>v. Inr (scaleSequential_interpolateTurbo d3 (0, 35) v)),
              alone = (\<lambda>v. Inr (scaleSequential_interpolateTurbo d3 (0, 35) v))\<rparr>
      else if l = ''Dew Point'' then
        Some \<lparr>onTable = (\<lambda>v. Inr (scaleSequential_interpolateTurbo d3 (0, 21) v)),
              alone = (\<lambda>v. Inr (scaleSequential_interpolateTurbo d3 (0, 21) v))\<rparr>
      else inherited l)"

definition callColorScale ::
  "(ColorScale \<Rightarrow> real \<Rightarrow> error + string) \<Rightarrow> ColorScale option \<Rightarrow> real \<Rightarrow> error + string" where
  "callColorScale how colorScale v =
     (case colorScale of None \<Rightarrow> Inl TypeError | Some f \<Rightarrow> how f v)"

definition MIN_SPACE_FOR_INNER_LABELS :: real where
  "MIN_SPACE_FOR_INNER_LABELS = 30"

text \<open>
  What \<open>PointLabel\<close> renders: a circle at the point, and a text drawn at
  \<open>x + dx\<close>, \<open>y + dy\<close> (the offsets are kept apart here).  The text itself,
  the rounded Fahrenheit value, is left out.
\<close>

record LabelNode =
  circle_cx :: real
  circle_cy :: real
  text_dx :: real
  text_dy :: real
  text_fill :: string
  text_alignmentBaseline :: "AlignmentBaseline option"
  text_textAnchor :: "TextAnchor option"

text \<open>
  \<open>PointLabel\<close>: the placement is computed first (and may throw), then the
  border test decides between \<open>null\<close> (\<open>None\<close>) and the label.
\<close>

definition PointLabel ::
  "Point \<Rightarrow> Point list \<Rightarrow> real \<Rightarrow> real \<Rightarrow> string \<Rightarrow> real \<Rightarrow> real \<Rightarrow> error + LabelNode option" where
  "PointLabel pt pts x y color w h =
     (case getPointLabelPositioning pt pts of
        Inl e \<Rightarrow> Inl e
      | Inr pos \<Rightarrow>
          (if x < MIN_SPACE_FOR_INNER_LABELS
              \<or> y < MIN_SPACE_FOR_INNER_LABELS
              \<or> \<bar>w - x\<bar> < MIN_SPACE_FOR_INNER_LABELS
              \<or> \<bar>h - y\<bar> < MIN_SPACE_FOR_INNER_LABELS
           then Inr None
           else Inr (Some \<lparr>circle_cx = x, circle_cy = y,
                           text_dx = dx pos, text_dy = dy pos,
                           text_fill = color,
                           text_alignmentBaseline = alignmentBaseline pos,
                           text_textAnchor = textAnchor pos\<rparr>)))"

text \<open>
  \<open>TsPath\<close>: one gradient stop per value of the d3 range over the extent of
  the values, coloured by a call of the colour scale, and the path of all of
  \<open>points\<close>: the d3 line generator has the two scales as accessors, and the
  curve it draws (\<open>curveMonotoneX\<close>) is a function of this list of vertices.
  The offsets of the stops and the identifier of the gradient are left out.
\<close>

record PathNode =
  stopColors :: "string list"
  vertices :: "(real \<times> real) list"

definition TsPath ::
  "D3 \<Rightarrow> Point list \<Rightarrow> (int \<Rightarrow> real) \<Rightarrow> (real \<Rightarrow> real) \<Rightarrow> ColorScale option
     \<Rightarrow> error + PathNode" where
  "TsPath d3 pts xScale yScale colorScale =
     (case renderAll (map (callColorScale alone colorScale) (range_tenths d3 (extent pts value))) of
        Inl e \<Rightarrow> Inl e
      | Inr stops \<Rightarrow>
          Inr \<lparr>stopColors = stops,
               vertices = map (\<lambda>d. (xScale (time d), yScale (value d))) pts\<rparr>)"

text \<open>
  \<open>Chart\<close>, first the values its body computes.  The width is replaced by
  1200 when it is below 1000.  The outer spacing is 18 at the bottom and 0
  elsewhere, the inner spacing 30 at the top and at the bottom and 0 at the
  sides, so the time scale ranges over \<open>[0, width]\<close> and the value scale
  over \<open>[height - 18 - 30, 30]\<close>.  \<open>extremePointsByTs\<close> is an object keyed by
  the labels, filled series by series, a later series replacing an earlier one
  of the same label.
\<close>

definition Chart_width :: "Dimensions \<Rightarrow> real" where
  "Chart_width dims = (if width dims < 1000 then 1200 else width dims)"

definition Chart_xScale :: "D3 \<Rightarrow> TimeSeries list \<Rightarrow> Dimensions \<Rightarrow> int \<Rightarrow> real" where
  "Chart_xScale d3 tss dims =
     (let innerWidth = Chart_width dims - 0 - 0
      in scaleTime d3 (Chart_xDomain tss) (0, innerWidth - 0))"

definition Chart_yScale :: "D3 \<Rightarrow> TimeSeries list \<Rightarrow> Dimensions \<Rightarrow> real \<Rightarrow> real" where
  "Chart_yScale d3 tss dims =
     (let innerHeight = height dims - 0 - 18
      in scaleLinear d3 (Chart_yDomain tss) (innerHeight - 30, 30))"

definition extremePointsByTs :: "TimeSeries list \<Rightarrow> string \<Rightarrow> Point list option" where
  "extremePointsByTs tss =
     foldl (\<lambda>acc ts. acc(label ts \<mapsto> getExtremePoints (points ts))) Map.empty tss"

text \<open>
  The body of \<open>Chart\<close> builds, for every series in turn, the element of its
  path and one \<open>PointLabel\<close> element per extreme point registered under its
  label; the colour of a label is computed there, by a call of the colour
  scale of the series.  Reading \<open>.map\<close> of \<open>undefined\<close> throws a TypeError.
\<close>

definition pointLabelColors ::
  "D3 \<Rightarrow> (string \<Rightarrow> ColorScale option) \<Rightarrow> TimeSeries list \<Rightarrow> TimeSeries
     \<Rightarrow> error + (Point \<times> string) list" where
  "pointLabelColors d3 inherited tss ts =
     (case extremePointsByTs tss (label ts) of
        None \<Rightarrow> Inl TypeError
      | Some ps \<Rightarrow>
          renderAll
            (map (\<lambda>p. case callColorScale onTable
                              (COLOR_SCALE_BY_TS_LABEL d3 inherited (label ts)) (value p) of
                         Inl e \<Rightarrow> Inl e
                       | Inr color \<Rightarrow> Inr (p, color))
                 ps))"

text \<open>
  The elements of one series are then rendered: its path, and its labels at
  the scaled positions of their points, with the width and the height of the
  chart.
\<close>

record SeriesFragment =
  path :: PathNode
  pointLabels :: "LabelNode option list"

definition seriesFragment ::
  "D3 \<Rightarrow> (string \<Rightarrow> ColorScale option) \<Rightarrow> (int \<Rightarrow> real) \<Rightarrow> (real \<Rightarrow> real) \<Rightarrow> real \<Rightarrow> real
     \<Rightarrow> TimeSeries \<times> (Point \<times> string) list \<Rightarrow> error + SeriesFragment" where
  "seriesFragment d3 inherited xScale yScale w h tc =
     (case tc of (ts, coloured) \<Rightarrow>
        (case TsPath d3 (points ts) xScale yScale
                (COLOR_SCALE_BY_TS_LABEL d3 inherited (label ts)) of
           Inl e \<Rightarrow> Inl e
         | Inr pth \<Rightarrow>
             (case renderAll
                     (map (\<lambda>(p, color).
                             PointLabel p (points ts) (xScale (time p)) (yScale (value p))
                               color w h)
                          coloured) of
                Inl e \<Rightarrow> Inl e
              | Inr ls \<Rightarrow> Inr \<lparr>path = pth, pointLabels = ls\<rparr>)))"

text \<open>
  \<open>Chart\<close>: the day boundaries come first, and an exception of the segmenter
  ends the rendering; the day labels, the axes and the ticks are left out.
  The result has one fragment per series.  \<open>None\<close> is a segmenter that never
  returns.
\<close>

definition Chart ::
  "D3 \<Rightarrow> TimeZone \<Rightarrow> (string \<Rightarrow> ColorScale option) \<Rightarrow> TimeSeries list \<Rightarrow> Dimensions
     \<Rightarrow> (error + SeriesFragment list) option" where
  "Chart d3 tz inherited tss dims =
     (case Chart_dayBoundaries tz tss of
        None \<Rightarrow> None
      | Some (Inl e) \<Rightarrow> Some (Inl e)
      | Some (Inr dayBoundaries) \<Rightarrow>
          Some (case renderAll (map (pointLabelColors d3 inherited tss) tss) of
                  Inl e \<Rightarrow> Inl e
                | Inr coloured \<Rightarrow>
                    renderAll
                      (map (seriesFragment d3 inherited (Chart_xScale d3 tss dims)
                              (Chart_yScale d3 tss dims) (Chart_width dims) (height dims))
                           (zip tss coloured))))"


text \<open>
  An instance of the d3 parameters in exact arithmetic: linear scales (the
  middle of the range for a domain of one value, and 0 where d3 gives NaN for
  a domain without ends), a colour scale that names the half of its domain,
  and ten stops between two different ends.
\<close>

definition linearScale :: "real \<times> real \<Rightarrow> real \<times> real \<Rightarrow> real \<Rightarrow> real" where
  "linearScale dm rng v =
     (if fst dm = snd dm then (fst rng + snd rng) / 2
      else fst rng + (v - fst dm) / (snd dm - fst dm) * (snd rng - fst rng))"

definition exactD3 :: D3 where
  "exactD3 =
     \<lparr> scaleTime = (\<lambda>dm rng t. case dm of
           (Some d0, Some d1) \<Rightarrow> linearScale (real_of_int d0, real_of_int d1) rng (real_of_int t)
         | _ \<Rightarrow> 0),
       scaleLinear = (\<lambda>dm rng v. case dm of
           (Some d0, Some d1) \<Rightarrow> linearScale (d0, d1) rng v
         | _ \<Rightarrow> 0),
       scaleSequential_interpolateTurbo = (\<lambda>dm v. if v < (fst dm + snd dm) / 2 then ''cool'' else ''warm''),
       range_tenths = (\<lambda>dm. case dm of
           (Some d0, Some d1) \<Rightarrow>
             (if d0 < d1 then map (\<lambda>k. d0 + real k * ((d1 - d0) / 10)) [0..<10] else [])
         | _ \<Rightarrow> []) \<rparr>"

text \<open>A series whose one extreme point lies close to the left edge.\<close>

definition seriesNearEdge :: "Point list" where
  "seriesNearEdge =
     [\<lparr>time = 1641834000000, value = 1, i = 0\<rparr>, \<lparr>time = 1641834100000, value = 3, i = 1\<rparr>,
      \<lparr>time = 1641848400000, value = 2, i = 2\<rparr>]"

text \<open>The samples of a series that fall in a day.\<close>

definition inBoundary :: "Point list \<Rightarrow> int \<times> int \<Rightarrow> Point list" where
  "inBoundary pts b = filter (\<lambda>p. fst b \<le> time p \<and> time p < snd b) pts"

text \<open>The example series of the specification: the values 1, 3, 2, 5, 1.\<close>

definition series13251 :: "Point list" where
  "series13251 =
     [\<lparr>time = 0, value = 1, i = 0\<rparr>, \<lparr>time = 3600000, value = 3, i = 1\<rparr>,
      \<lparr>time = 7200000, value = 2, i = 2\<rparr>, \<lparr>time = 10800000, value = 5, i = 3\<rparr>,
      \<lparr>time = 14400000, value = 1, i = 4\<rparr>]"

text \<open>One day that holds four samples with the values 5, 1, 9, 3.\<close>

definition series5193 :: "Point list" where
  "series5193 =
     [\<lparr>time = 0, value = 5, i = 0\<rparr>, \<lparr>time = 3600000, value = 1, i = 1\<rparr>,
      \<lparr>time = 7200000, value = 9, i = 2\<rparr>, \<lparr>time = 10800000, value = 3, i = 3\<rparr>]"


section \<open>Facts about the segmenter\<close>

lemma day_floor_le: "(x::int) div 86400000 * 86400000 \<le> x"
proof -
  have "0 \<le> x mod 86400000" by simp
  then show ?thesis by (simp add: algebra_simps minus_mod_eq_mult_div [symmetric])
qed

lemma day_floor_gt: "(x::int) < x div 86400000 * 86400000 + 86400000"
proof -
  have "x mod 86400000 < 86400000" by simp
  then show ?thesis by (simp add: algebra_simps minus_mod_eq_mult_div [symmetric])
qed

lemma day_floor_unique:
  "(k::int) * 86400000 \<le> x \<Longrightarrow> x < k * 86400000 + 86400000 \<Longrightarrow> x div 86400000 = k"
  by (rule int_div_pos_eq [of x 86400000 k "x - k * 86400000"]) simp_all

lemma resolve2022_midnight: "resolve2022 (k * 86400000) = midnight2022 k"
  by (auto simp: resolve2022_def easternOffset2022_def midnight2022_def)

lemma wallClock_midnight2022:
  "midnight2022 k - easternOffset2022 (midnight2022 k) = k * 86400000"
  by (auto simp: easternOffset2022_def midnight2022_def)

lemma eastern2022_startOfDay:
  "startOfDay eastern2022 t = midnight2022 ((t - easternOffset2022 t) div 86400000)"
  by (simp add: eastern2022_def msPerDay_def resolve2022_midnight)

lemma eastern2022_addP1D_midnight:
  "addP1D eastern2022 (midnight2022 k) = midnight2022 (k + 1)"
proof -
  have "k * 86400000 + 86400000 = (k + 1) * 86400000" by (simp add: algebra_simps)
  then have "resolve2022 (k * 86400000 + 86400000) = midnight2022 (k + 1)"
    by (simp only: resolve2022_midnight)
  then show ?thesis
    by (simp add: eastern2022_def msPerDay_def wallClock_midnight2022)
qed

lemma dayOf_midnight2022:
  "(midnight2022 k - easternOffset2022 (midnight2022 k)) div 86400000 = k"
  by (simp add: wallClock_midnight2022)

lemma dayOf_bounds:
  "midnight2022 ((t - easternOffset2022 t) div 86400000) \<le> t
   \<and> t < midnight2022 ((t - easternOffset2022 t) div 86400000 + 1)"
proof -
  define q where "q = (t - easternOffset2022 t) div 86400000"
  have "q * 86400000 \<le> t - easternOffset2022 t" "t - easternOffset2022 t < q * 86400000 + 86400000"
    unfolding q_def by (rule day_floor_le, rule day_floor_gt)
  then have "midnight2022 q \<le> t \<and> t < midnight2022 (q + 1)"
    by (auto simp: easternOffset2022_def midnight2022_def split: if_splits)
  then show ?thesis by (simp add: q_def)
qed

lemma dayOf_unique:
  assumes "midnight2022 k \<le> t" and "t < midnight2022 (k + 1)"
  shows "(t - easternOffset2022 t) div 86400000 = k"
proof (rule day_floor_unique)
  from assms show "k * 86400000 \<le> t - easternOffset2022 t"
    by (auto simp: easternOffset2022_def midnight2022_def split: if_splits)
  from assms show "t - easternOffset2022 t < k * 86400000 + 86400000"
    by (auto simp: easternOffset2022_def midnight2022_def split: if_splits)
qed

lemma calendar_zone_eastern2022: "calendar_zone eastern2022"
proof -
  let ?d = "\<lambda>t. (t - easternOffset2022 t) div 86400000"
  have sod: "startOfDay eastern2022 t = midnight2022 (?d t)" for t
    by (rule eastern2022_startOfDay)
  have nxt: "addP1D eastern2022 (startOfDay eastern2022 t) = midnight2022 (?d t + 1)" for t
    by (simp add: sod eastern2022_addP1D_midnight)
  have 1: "startOfDay eastern2022 t \<le> t" for t
    using dayOf_bounds [of t] by (simp add: sod)
  have 2: "startOfDay eastern2022 (startOfDay eastern2022 t) = startOfDay eastern2022 t" for t
    by (simp add: sod dayOf_midnight2022)
  have 3: "t < addP1D eastern2022 (startOfDay eastern2022 t)" for t
    using dayOf_bounds [of t] by (simp add: nxt)
  have 4: "startOfDay eastern2022 (addP1D eastern2022 (startOfDay eastern2022 t))
      = addP1D eastern2022 (startOfDay eastern2022 t)" for t
    by (simp add: nxt) (simp add: sod dayOf_midnight2022)
  have 5: "startOfDay eastern2022 t = b"
    if "startOfDay eastern2022 b = b" "b \<le> t" "t < addP1D eastern2022 b" for b t
  proof -
    from that(1) have b: "b = midnight2022 (?d b)" by (simp add: sod)
    with that(3) have "t < midnight2022 (?d b + 1)"
      using nxt [of b] that(1) by simp
    with that(2) b have "?d t = ?d b"
      by (intro dayOf_unique) simp_all
    with b show ?thesis by (simp add: sod)
  qed
  show ?thesis
    unfolding calendar_zone_def using 1 2 3 4 5 by blast
qed

lemma contiguous_from_lower:
  "contiguous_from c ds \<Longrightarrow> \<forall>d\<in>set ds. fst d < snd d \<Longrightarrow> d \<in> set ds \<Longrightarrow> c \<le> fst d"
proof (induction c ds rule: contiguous_from.induct)
  case (1 c)
  then show ?case by simp
next
  case (2 c a b ds)
  then show ?case by fastforce
qed

lemma contiguous_from_last:
  "contiguous_from c ds \<Longrightarrow> \<forall>d\<in>set ds. fst d < snd d \<Longrightarrow> ds \<noteq> [] \<Longrightarrow> c < snd (last ds)"
proof (induction c ds rule: contiguous_from.induct)
  case (1 c)
  then show ?case by simp
next
  case (2 c a b ds)
  then show ?case by (cases "ds = []") fastforce+
qed

lemma contiguous_from_union:
  "contiguous_from c ds \<Longrightarrow> \<forall>d\<in>set ds. fst d < snd d \<Longrightarrow> ds \<noteq> [] \<Longrightarrow>
   (\<Union>d\<in>set ds. {fst d..<snd d}) = {c..<snd (last ds)}"
proof (induction c ds rule: contiguous_from.induct)
  case (1 c)
  then show ?case by simp
next
  case (2 c a b ds)
  show ?case
  proof (cases "ds = []")
    case True
    with 2 show ?thesis by simp
  next
    case False
    from 2 have ih: "(\<Union>d\<in>set ds. {fst d..<snd d}) = {b..<snd (last ds)}"
      using False by simp
    from 2 False have "b < snd (last ds)"
      using contiguous_from_last [of b ds] by simp
    moreover from 2 have "a = c" "a < b" by simp_all
    ultimately have "{c..<b} \<union> {b..<snd (last ds)} = {c..<snd (last ds)}"
      by auto
    with ih False \<open>a = c\<close> show ?thesis by simp
  qed
qed

lemma contiguous_from_adjacent:
  "contiguous_from c ds \<Longrightarrow> Suc k < length ds \<Longrightarrow> snd (ds ! k) = fst (ds ! Suc k)"
proof (induction c ds arbitrary: k rule: contiguous_from.induct)
  case (1 c)
  then show ?case by simp
next
  case (2 c a b ds)
  show ?case
  proof (cases k)
    case 0
    with 2 show ?thesis by (cases ds) auto
  next
    case (Suc j)
    with 2 show ?thesis by simp
  qed
qed

lemma contiguous_from_ordered:
  "contiguous_from c ds \<Longrightarrow> \<forall>d\<in>set ds. fst d < snd d \<Longrightarrow> k < l \<Longrightarrow> l < length ds \<Longrightarrow>
   snd (ds ! k) \<le> fst (ds ! l)"
proof (induction c ds arbitrary: k l rule: contiguous_from.induct)
  case (1 c)
  then show ?case by simp
next
  case (2 c a b ds)
  from "2.prems"(3) obtain l' where l: "l = Suc l'" by (cases l) auto
  show ?case
  proof (cases k)
    case 0
    from "2.prems" l have "ds ! l' \<in> set ds" by simp
    with "2.prems" have "b \<le> fst (ds ! l')"
      using contiguous_from_lower [of b ds "ds ! l'"] by simp
    with 0 l show ?thesis by simp
  next
    case (Suc j)
    with 2 l show ?thesis by simp
  qed
qed

lemma day_start_advances:
  assumes "calendar_zone tz" and "startOfDay tz c = c"
  shows "c < addP1D tz c" and "startOfDay tz (addP1D tz c) = addP1D tz c"
proof -
  from assms(1) have "c' < addP1D tz (startOfDay tz c')
    \<and> startOfDay tz (addP1D tz (startOfDay tz c')) = addP1D tz (startOfDay tz c')" for c'
    unfolding calendar_zone_def by blast
  from this [of c] assms(2)
  show "c < addP1D tz c" and "startOfDay tz (addP1D tz c) = addP1D tz c"
    by simp_all
qed

lemma boundaryLoop_result:
  assumes cz: "calendar_zone tz"
  shows "startOfDay tz c = c \<Longrightarrow>
    \<exists>ds. boundaryLoop tz e c acc = Some (acc @ ds)
       \<and> contiguous_from c ds
       \<and> (\<forall>d\<in>set ds. is_day tz d \<and> fst d < snd d \<and> fst d < e)
       \<and> (ds = [] \<longleftrightarrow> e \<le> c)
       \<and> (ds \<noteq> [] \<longrightarrow> e \<le> snd (last ds))"
proof (induction "nat (e - c)" arbitrary: c acc rule: less_induct)
  case less
  show ?case
  proof (cases "e - c > 0")
    case True
    let ?c' = "addP1D tz c"
    have adv: "c < ?c'" and st: "startOfDay tz ?c' = ?c'"
      using day_start_advances [OF cz less.prems] by simp_all
    from adv True have "nat (e - ?c') < nat (e - c)" by simp
    from less.hyps [OF this st, of "acc @ [(c, ?c')]"]
    obtain ds where ds: "boundaryLoop tz e ?c' (acc @ [(c, ?c')]) = Some ((acc @ [(c, ?c')]) @ ds)"
      "contiguous_from ?c' ds" "\<forall>d\<in>set ds. is_day tz d \<and> fst d < snd d \<and> fst d < e"
      "ds = [] \<longleftrightarrow> e \<le> ?c'" "ds \<noteq> [] \<longrightarrow> e \<le> snd (last ds)"
      by blast
    have run: "boundaryLoop tz e c acc = Some (acc @ (c, ?c') # ds)"
      using True ds(1) by (subst boundaryLoop.simps) (simp add: Let_def)
    have "is_day tz (c, ?c')"
      using less.prems by (simp add: is_day_def)
    with run ds adv True show ?thesis
      by (intro exI [of _ "(c, ?c') # ds"]) auto
  next
    case False
    then have "boundaryLoop tz e c acc = Some (acc @ [])"
      by (subst boundaryLoop.simps) simp
    with False show ?thesis
      by (intro exI [of _ "[]"]) simp
  qed
qed

lemma boundaryLoop_stop: "e \<le> c \<Longrightarrow> boundaryLoop tz e c acc = Some acc"
  by (subst boundaryLoop.simps) simp

lemma getDayBoundaries_Some:
  "getDayBoundaries tz (Some s) (Some e) = map_option Inr (boundaryLoop tz e (startOfDay tz s) [])"
  by (simp add: getDayBoundaries_def fromEpochMilliseconds_def)

lemma startOfDay_idem: "calendar_zone tz \<Longrightarrow> startOfDay tz (startOfDay tz t) = startOfDay tz t"
  unfolding calendar_zone_def by blast

lemma is_day_instants:
  assumes cz: "calendar_zone tz" and d: "is_day tz d"
  shows "{fst d..<snd d} = {t. startOfDay tz t = fst d}"
proof (intro set_eqI iffI)
  fix t assume "t \<in> {fst d..<snd d}"
  with d have "startOfDay tz (fst d) = fst d \<and> fst d \<le> t \<and> t < addP1D tz (fst d)"
    by (simp add: is_day_def)
  with cz have "startOfDay tz t = fst d"
    unfolding calendar_zone_def by blast
  then show "t \<in> {t. startOfDay tz t = fst d}" by simp
next
  fix t assume "t \<in> {t. startOfDay tz t = fst d}"
  then have t: "startOfDay tz t = fst d" by simp
  from cz have "startOfDay tz t \<le> t \<and> t < addP1D tz (startOfDay tz t)"
    unfolding calendar_zone_def by blast
  with t d show "t \<in> {fst d..<snd d}"
    by (simp add: is_day_def)
qed

lemma boundaryLoop_last_end:
  assumes cz: "calendar_zone tz" and a: "startOfDay tz a = a" and lt: "a < e" and le: "e \<le> addP1D tz a"
  shows "addP1D tz a = (if startOfDay tz e = e then e else addP1D tz (startOfDay tz e))"
proof (cases "e = addP1D tz a")
  case True
  with day_start_advances(2) [OF cz a] show ?thesis by simp
next
  case False
  with le have "e < addP1D tz a" by simp
  with cz a lt have "startOfDay tz e = a"
    unfolding calendar_zone_def by (meson less_imp_le)
  with lt show ?thesis by simp
qed


section \<open>Facts about the detectors\<close>

lemma minIndexLoop_cases:
  "minIndexLoop f ds mn mi idx = r \<Longrightarrow>
     (r = mi \<and> (\<forall>d\<in>set ds. case mn of None \<Rightarrow> False | Some m \<Rightarrow> m \<le> f d))
   \<or> (idx < r \<and> r \<le> idx + int (length ds)
        \<and> (\<forall>d\<in>set ds. f (ds ! nat (r - idx - 1)) \<le> f d)
        \<and> (\<forall>m. mn = Some m \<longrightarrow> f (ds ! nat (r - idx - 1)) < m))"
proof (induction ds arbitrary: mn mi idx r)
  case Nil
  then show ?case by simp
next
  case (Cons d ds)
  show ?case
  proof (cases "case mn of None \<Rightarrow> True | Some m \<Rightarrow> m > f d")
    case True
    with Cons.prems have run: "minIndexLoop f ds (Some (f d)) (idx + 1) (idx + 1) = r"
      by simp
    from Cons.IH [OF run] consider
      (kept) "r = idx + 1" "\<forall>x\<in>set ds. f d \<le> f x"
      | (later) "idx + 1 < r" "r \<le> idx + 1 + int (length ds)"
          "\<forall>x\<in>set ds. f (ds ! nat (r - (idx + 1) - 1)) \<le> f x"
          "f (ds ! nat (r - (idx + 1) - 1)) < f d"
      by auto
    then show ?thesis
    proof cases
      case kept
      with True show ?thesis by (auto split: option.splits)
    next
      case later
      from later(1) have "nat (r - idx - 1) = Suc (nat (r - (idx + 1) - 1))" by simp
      with later True show ?thesis by (auto split: option.splits)
    qed
  next
    case False
    then obtain m where m: "mn = Some m" "m \<le> f d" by (auto split: option.splits)
    with Cons.prems have run: "minIndexLoop f ds (Some m) mi (idx + 1) = r"
      by simp
    from Cons.IH [OF run] consider
      (kept) "r = mi" "\<forall>x\<in>set ds. m \<le> f x"
      | (later) "idx + 1 < r" "r \<le> idx + 1 + int (length ds)"
          "\<forall>x\<in>set ds. f (ds ! nat (r - (idx + 1) - 1)) \<le> f x"
          "f (ds ! nat (r - (idx + 1) - 1)) < m"
      by auto
    then show ?thesis
    proof cases
      case kept
      with m show ?thesis by auto
    next
      case later
      from later(1) have "nat (r - idx - 1) = Suc (nat (r - (idx + 1) - 1))" by simp
      with later m show ?thesis by auto
    qed
  qed
qed

lemma maxIndexLoop_minIndexLoop:
  "maxIndexLoop f ds mx mi idx = minIndexLoop (\<lambda>d. - f d) ds (map_option uminus mx) mi idx"
  by (induction ds arbitrary: mx mi idx) (auto split: option.splits)

lemma minIndex_nonempty:
  assumes "ds \<noteq> []"
  shows "0 \<le> minIndex ds f" and "minIndex ds f < int (length ds)"
    and "\<forall>d\<in>set ds. f (ds ! nat (minIndex ds f)) \<le> f d"
  using minIndexLoop_cases [of f ds None "- 1" "- 1" "minIndex ds f"] assms
  by (auto simp: minIndex_def)

lemma maxIndex_nonempty:
  assumes "ds \<noteq> []"
  shows "0 \<le> maxIndex ds f" and "maxIndex ds f < int (length ds)"
    and "\<forall>d\<in>set ds. f d \<le> f (ds ! nat (maxIndex ds f))"
  using minIndexLoop_cases [of "\<lambda>d. - f d" ds None "- 1" "- 1" "maxIndex ds f"] assms
  by (auto simp: maxIndex_def maxIndexLoop_minIndexLoop)

lemma concat_pairs_nth:
  "\<forall>x\<in>set xs. length (g x) = 2 \<Longrightarrow> k < length xs \<Longrightarrow>
     concat (map g xs) ! (2 * k) = g (xs ! k) ! 0
   \<and> concat (map g xs) ! (2 * k + 1) = g (xs ! k) ! 1"
proof (induction xs arbitrary: k)
  case Nil
  then show ?case by simp
next
  case (Cons x xs)
  show ?case
  proof (cases k)
    case 0
    with Cons.prems show ?thesis by (simp add: nth_append)
  next
    case (Suc j)
    with Cons show ?thesis by (simp add: nth_append)
  qed
qed

lemma concat_pairs_length:
  "\<forall>x\<in>set xs. length (g x) = 2 \<Longrightarrow> length (concat (map g xs)) = 2 * length xs"
  by (induction xs) auto

lemma extremesInBoundary_length: "length (extremesInBoundary pts b) = 2"
  by (cases b) (simp add: extremesInBoundary_def Let_def)

lemma extremesInBoundary_eq:
  "extremesInBoundary pts b =
     [elemAt (inBoundary pts b) (minIndex (inBoundary pts b) value),
      elemAt (inBoundary pts b) (maxIndex (inBoundary pts b) value)]"
  by (cases b) (simp add: extremesInBoundary_def inBoundary_def Let_def)

lemma getExtremePoints_coordinates_nth:
  assumes "k < length bs"
  shows "getExtremePoints_coordinates bs pts ! (2 * k)
           = elemAt (inBoundary pts (bs ! k)) (minIndex (inBoundary pts (bs ! k)) value)"
    and "getExtremePoints_coordinates bs pts ! (2 * k + 1)
           = elemAt (inBoundary pts (bs ! k)) (maxIndex (inBoundary pts (bs ! k)) value)"
  using concat_pairs_nth [of bs "extremesInBoundary pts" k] assms
  by (simp_all add: getExtremePoints_coordinates_def extremesInBoundary_length
      extremesInBoundary_eq)

lemma getExtremePoints_coordinates_length:
  "length (getExtremePoints_coordinates bs pts) = 2 * length bs"
  by (simp add: getExtremePoints_coordinates_def concat_pairs_length extremesInBoundary_length)

lemma filteri_nth:
  "filteri f xs = map ((!) xs) (filter (\<lambda>k. f (xs ! k) (int k) xs) [0..<length xs])"
proof -
  have "zip xs (map int [0..<length xs]) = map (\<lambda>k. (xs ! k, int k)) [0..<length xs]"
    by (rule nth_equalityI) simp_all
  then show ?thesis
    by (simp add: filteri_def filter_map comp_def)
qed

lemma set_filteri:
  "set (filteri f xs) = {xs ! k | k. k < length xs \<and> f (xs ! k) (int k) xs}"
  by (auto simp: filteri_nth)

lemma valueAt_pred:
  "k < length pts \<Longrightarrow> valueAt pts (int k - 1) = (if 0 < k then Some (value (pts ! (k - 1))) else None)"
  by (auto simp: valueAt_def elemAt_def nat_diff_distrib')

lemma valueAt_succ:
  "valueAt pts (int k + 1) = (if k + 1 < length pts then Some (value (pts ! (k + 1))) else None)"
  by (auto simp: valueAt_def elemAt_def nat_add_distrib)

lemma isInflection_nth:
  assumes "k < length pts"
  shows "isInflection (pts ! k) (int k) pts \<longleftrightarrow>
     0 < k \<and> k + 1 < length pts
     \<and> (value (pts ! k) < value (pts ! (k - 1)) \<and> value (pts ! k) < value (pts ! (k + 1))
        \<or> value (pts ! k) > value (pts ! (k - 1)) \<and> value (pts ! k) > value (pts ! (k + 1)))"
  unfolding isInflection_def valueAt_pred [OF assms] valueAt_succ
  by (auto simp: numLess_def numGreater_def)

lemma notTooClose_nth:
  assumes "k < length ps"
  shows "notTooClose (ps ! k) (int k) ps \<longleftrightarrow> k = 0 \<or> i (ps ! (k - 1)) \<noteq> i (ps ! k) - 1"
  using assms by (auto simp: notTooClose_def elemAt_def nat_diff_distrib')

lemma series13251_flagged: "map i (inflectionPoints series13251) = [1, 2, 3]"
  by (simp add: inflectionPoints_def filteri_def series13251_def isInflection_def valueAt_def
      elemAt_def numLess_def numGreater_def upt_rec)

lemma series13251_extreme: "map i (getExtremePoints series13251) = [1]"
  by (simp add: getExtremePoints_def notTooClose_def inflectionPoints_def filteri_def
      series13251_def isInflection_def valueAt_def elemAt_def numLess_def numGreater_def upt_rec)

lemma inflectionPoints_increasing:
  assumes inv: "\<forall>k<length pts. i (pts ! k) = int k"
  shows "sorted_wrt (\<lambda>p q. i p < i q) (inflectionPoints pts)"
proof -
  let ?ks = "filter (\<lambda>k. isInflection (pts ! k) (int k) pts) [0..<length pts]"
  have "sorted_wrt (<) ?ks"
    by (rule sorted_wrt_filter) simp
  then have "sorted_wrt (\<lambda>a b. i (pts ! a) < i (pts ! b)) ?ks"
    by (rule sorted_wrt_mono_rel [rotated]) (use inv in auto)
  then show ?thesis
    by (simp add: inflectionPoints_def filteri_nth sorted_wrt_map)
qed

lemma collapse_first_of_run:
  assumes inc: "sorted_wrt (\<lambda>p q. i p < i q) F" and p: "p \<in> set F"
  shows "p \<in> set (filteri notTooClose F) \<longleftrightarrow> \<not> (\<exists>q\<in>set F. i q = i p - 1)"
proof -
  from p obtain k where k: "k < length F" "F ! k = p"
    by (auto simp: in_set_conv_nth)
  have mono: "i (F ! a) < i (F ! b)" if "a < b" "b < length F" for a b
    using inc that by (simp add: sorted_wrt_iff_nth_less)
  have uniq: "a = k" if "a < length F" "F ! a = p" for a
  proof (rule ccontr)
    assume "a \<noteq> k"
    then consider "a < k" | "k < a" by linarith
    then show False
      using mono [of a k] mono [of k a] k that by cases auto
  qed
  have kept: "p \<in> set (filteri notTooClose F) \<longleftrightarrow> (k = 0 \<or> i (F ! (k - 1)) \<noteq> i (F ! k) - 1)"
  proof
    assume "p \<in> set (filteri notTooClose F)"
    then obtain a where a: "a < length F" "F ! a = p" "notTooClose (F ! a) (int a) F"
      by (auto simp: set_filteri)
    with uniq have "a = k" by simp
    with a(3) have "notTooClose (F ! k) (int k) F" by (simp only:)
    then show "k = 0 \<or> i (F ! (k - 1)) \<noteq> i (F ! k) - 1"
      by (simp only: notTooClose_nth [OF k(1)])
  next
    assume "k = 0 \<or> i (F ! (k - 1)) \<noteq> i (F ! k) - 1"
    then have "notTooClose (F ! k) (int k) F"
      by (simp only: notTooClose_nth [OF k(1)])
    with k show "p \<in> set (filteri notTooClose F)"
      unfolding set_filteri by blast
  qed
  have run: "(\<exists>q\<in>set F. i q = i p - 1) \<longleftrightarrow> (0 < k \<and> i (F ! (k - 1)) = i (F ! k) - 1)"
  proof
    assume "\<exists>q\<in>set F. i q = i p - 1"
    then obtain a where a: "a < length F" "i (F ! a) = i (F ! k) - 1"
      using k by (auto simp: in_set_conv_nth)
    have "a < k"
    proof (rule ccontr)
      assume "\<not> a < k"
      then consider "a = k" | "k < a" by linarith
      then show False using a mono [of k a] by cases auto
    qed
    then have pos: "0 < k" by simp
    have "i (F ! a) \<le> i (F ! (k - 1))"
    proof (cases "a = k - 1")
      case True
      then show ?thesis by simp
    next
      case False
      with \<open>a < k\<close> have "a < k - 1" by simp
      moreover from k(1) have "k - 1 < length F" by arith
      ultimately show ?thesis using mono [of a "k - 1"] by simp
    qed
    moreover have "i (F ! (k - 1)) < i (F ! k)"
      using mono [of "k - 1" k] pos k by simp
    ultimately show "0 < k \<and> i (F ! (k - 1)) = i (F ! k) - 1"
      using a pos by simp
  next
    assume h: "0 < k \<and> i (F ! (k - 1)) = i (F ! k) - 1"
    with k have "F ! (k - 1) \<in> set F" by simp
    with h k show "\<exists>q\<in>set F. i q = i p - 1" by auto
  qed
  from kept run show ?thesis by auto
qed

lemma series13251_invariant: "\<forall>k<length series13251. i (series13251 ! k) = int k"
  by (simp add: series13251_def less_Suc_eq numeral_eq_Suc)


section \<open>Facts about the scene composer\<close>






lemma extent_Nil: "extent [] f = (None, None)"
  by (simp add: extent_def)














lemma seriesNearEdge_extreme:
  "getExtremePoints seriesNearEdge = [\<lparr>time = 1641834100000, value = 3, i = 1\<rparr>]"
  by (simp add: getExtremePoints_def notTooClose_def inflectionPoints_def filteri_def
      seriesNearEdge_def isInflection_def valueAt_def elemAt_def numLess_def numGreater_def upt_rec)




lemma Chart_unknown_label:
  "Chart exactD3 eastern2022 (\<lambda>l. None) [\<lparr>label = ''Wind'', points = seriesNearEdge\<rparr>]
       \<lparr>width = 800, height = 400\<rparr>
     = Some (Inl TypeError)"
proof -
  have "Chart_xDomain [\<lparr>label = ''Wind'', points = seriesNearEdge\<rparr>]
      = (Some 1641834000000, Some 1641848400000)"
    by (simp add: Chart_xDomain_def extent_def seriesNearEdge_def)
  then have "Chart_dayBoundaries eastern2022 [\<lparr>label = ''Wind'', points = seriesNearEdge\<rparr>]
     = Some (Inr [(1641790800000, 1641877200000)])"
    by (simp add: Chart_dayBoundaries_def getDayBoundaries_Some boundaryLoop.simps
        eastern2022_def msPerDay_def resolve2022_def easternOffset2022_def Let_def)
  moreover have "pointLabelColors exactD3 (\<lambda>l. None)
        [\<lparr>label = ''Wind'', points = seriesNearEdge\<rparr>] \<lparr>label = ''Wind'', points = seriesNearEdge\<rparr>
      = Inl TypeError"
    by (simp add: pointLabelColors_def extremePointsByTs_def seriesNearEdge_extreme
        callColorScale_def COLOR_SCALE_BY_TS_LABEL_def)
  ultimately show ?thesis
    by (simp add: Chart_def)
qed


section \<open>The claims\<close>

text \<open>
  C9: the loop of the day segmenter is left for every pair of times, in any
  zone with the calendar properties the library guarantees: every interval it
  emits ends one calendar day after its start, strictly later; and when
  \<open>endTime\<close> is at or before the start of \<open>startTime\<close>'s day the body never
  runs and the result is the empty sequence.
\<close>

theorem getDayBoundaries_terminates:
  "(calendar_zone tz \<longrightarrow>
      (\<exists>bs. getDayBoundaries tz (Some startTime) (Some endTime) = Some (Inr bs)
         \<and> (\<forall>d\<in>set bs. fst d < snd d \<and> snd d = addP1D tz (fst d))))
   \<and> (endTime \<le> startOfDay tz startTime \<longrightarrow>
        getDayBoundaries tz (Some startTime) (Some endTime) = Some (Inr []))"
proof (intro conjI impI)
  assume cz: "calendar_zone tz"
  from boundaryLoop_result [OF cz startOfDay_idem [OF cz], of endTime startTime "[]"]
  obtain ds where "boundaryLoop tz endTime (startOfDay tz startTime) [] = Some ds"
    and "\<forall>d\<in>set ds. is_day tz d \<and> fst d < snd d \<and> fst d < endTime"
    by auto
  then show "\<exists>bs. getDayBoundaries tz (Some startTime) (Some endTime) = Some (Inr bs)
      \<and> (\<forall>d\<in>set bs. fst d < snd d \<and> snd d = addP1D tz (fst d))"
    by (auto simp: getDayBoundaries_Some is_day_def)
next
  assume "endTime \<le> startOfDay tz startTime"
  then show "getDayBoundaries tz (Some startTime) (Some endTime) = Some (Inr [])"
    by (simp add: getDayBoundaries_Some boundaryLoop_stop)
qed

theorem getDayBoundaries_terminates_witness:
  "calendar_zone eastern2022
   \<and> (\<exists>bs. getDayBoundaries eastern2022 (Some 1641834000000) (Some 1641963600000)
           = Some (Inr bs)
         \<and> (\<forall>d\<in>set bs. fst d < snd d \<and> snd d = addP1D eastern2022 (fst d)))
   \<and> 1641790800000 \<le> startOfDay eastern2022 1641834000000
   \<and> getDayBoundaries eastern2022 (Some 1641834000000) (Some 1641790800000)
         = Some (Inr [])"
proof -
  have le: "1641790800000 \<le> startOfDay eastern2022 1641834000000"
    by (simp add: eastern2022_def msPerDay_def resolve2022_def easternOffset2022_def)
  from getDayBoundaries_terminates [of eastern2022 1641834000000 1641963600000]
    getDayBoundaries_terminates [of eastern2022 1641834000000 1641790800000]
    calendar_zone_eastern2022 le
  show ?thesis by blast
qed

text \<open>
  C1, as the code has it: for \<open>startTime < endTime\<close>, in any zone with the
  calendar properties the library guarantees, the day segmenter returns a
  non-empty sequence of half-open intervals that are contiguous (each one ends
  where the next starts), pairwise disjoint, each exactly one calendar day of
  the zone (it runs from a start of day to one day later and holds exactly the
  instants of that day), and whose union runs from the start of
  \<open>startTime\<close>'s day to the first start of day that is not before \<open>endTime\<close>:
  \<open>endTime\<close> itself when it is a start of day, and one day after the start of
  \<open>endTime\<close>'s day otherwise.
\<close>

theorem getDayBoundaries_segments:
  assumes cz: "calendar_zone tz" and lt: "startTime < endTime"
  shows "\<exists>bs. getDayBoundaries tz (Some startTime) (Some endTime) = Some (Inr bs)
     \<and> bs \<noteq> []
     \<and> (\<forall>k. Suc k < length bs \<longrightarrow> snd (bs ! k) = fst (bs ! Suc k))
     \<and> (\<forall>k l. k < l \<and> l < length bs \<longrightarrow>
          {fst (bs ! k)..<snd (bs ! k)} \<inter> {fst (bs ! l)..<snd (bs ! l)} = {})
     \<and> (\<forall>d\<in>set bs. is_day tz d \<and> fst d < snd d
            \<and> {fst d..<snd d} = {t. startOfDay tz t = fst d})
     \<and> (\<Union>d\<in>set bs. {fst d..<snd d})
         = {startOfDay tz startTime..<
             (if startOfDay tz endTime = endTime then endTime
              else addP1D tz (startOfDay tz endTime))}"
proof -
  let ?c = "startOfDay tz startTime"
  have c: "startOfDay tz ?c = ?c" by (rule startOfDay_idem [OF cz])
  from cz have "?c \<le> startTime" unfolding calendar_zone_def by blast
  with lt have ce: "?c < endTime" by simp
  from boundaryLoop_result [OF cz c, of endTime "[]"]
  obtain ds where run: "boundaryLoop tz endTime ?c [] = Some ds"
    and cont: "contiguous_from ?c ds"
    and days: "\<forall>d\<in>set ds. is_day tz d \<and> fst d < snd d \<and> fst d < endTime"
    and ne: "ds \<noteq> []" and last: "endTime \<le> snd (last ds)"
    using ce by auto
  from days have pos: "\<forall>d\<in>set ds. fst d < snd d" by blast
  have adj: "\<forall>k. Suc k < length ds \<longrightarrow> snd (ds ! k) = fst (ds ! Suc k)"
    using contiguous_from_adjacent [OF cont] by blast
  have disj: "\<forall>k l. k < l \<and> l < length ds \<longrightarrow>
      {fst (ds ! k)..<snd (ds ! k)} \<inter> {fst (ds ! l)..<snd (ds ! l)} = {}"
  proof (intro allI impI)
    fix k l assume "k < l \<and> l < length ds"
    then have "snd (ds ! k) \<le> fst (ds ! l)"
      using contiguous_from_ordered [OF cont pos, of k l] by simp
    then show "{fst (ds ! k)..<snd (ds ! k)} \<inter> {fst (ds ! l)..<snd (ds ! l)} = {}"
      by auto
  qed
  from ne have "last ds \<in> set ds" by simp
  with days have ld: "is_day tz (last ds)" "fst (last ds) < endTime" by blast+
  from ld(1) have "snd (last ds) = addP1D tz (fst (last ds))"
    and "startOfDay tz (fst (last ds)) = fst (last ds)"
    by (simp_all add: is_day_def)
  with boundaryLoop_last_end [OF cz _ ld(2), of ] last
  have fin: "snd (last ds) = (if startOfDay tz endTime = endTime then endTime
              else addP1D tz (startOfDay tz endTime))"
    by simp
  have un: "(\<Union>d\<in>set ds. {fst d..<snd d}) = {?c..<snd (last ds)}"
    by (rule contiguous_from_union [OF cont pos ne])
  have whole: "\<forall>d\<in>set ds. is_day tz d \<and> fst d < snd d
      \<and> {fst d..<snd d} = {t. startOfDay tz t = fst d}"
    using days is_day_instants [OF cz] by blast
  from run have "getDayBoundaries tz (Some startTime) (Some endTime) = Some (Inr ds)"
    by (simp add: getDayBoundaries_Some)
  with ne adj disj whole un fin show ?thesis
    by (intro exI [of _ ds]) simp
qed

theorem getDayBoundaries_segments_witness:
  "calendar_zone eastern2022 \<and> (1647104400000::int) < 1647273600000
   \<and> getDayBoundaries eastern2022 (Some 1647104400000) (Some 1647273600000)
       = Some (Inr [(1647061200000, 1647147600000), (1647147600000, 1647230400000),
                    (1647230400000, 1647316800000)])
   \<and> (\<exists>bs. getDayBoundaries eastern2022 (Some 1647104400000) (Some 1647273600000) = Some (Inr bs)
     \<and> bs \<noteq> []
     \<and> (\<forall>k. Suc k < length bs \<longrightarrow> snd (bs ! k) = fst (bs ! Suc k))
     \<and> (\<forall>k l. k < l \<and> l < length bs \<longrightarrow>
          {fst (bs ! k)..<snd (bs ! k)} \<inter> {fst (bs ! l)..<snd (bs ! l)} = {})
     \<and> (\<forall>d\<in>set bs. is_day eastern2022 d \<and> fst d < snd d
            \<and> {fst d..<snd d} = {t. startOfDay eastern2022 t = fst d})
     \<and> (\<Union>d\<in>set bs. {fst d..<snd d})
         = {startOfDay eastern2022 1647104400000..<
             (if startOfDay eastern2022 1647273600000 = 1647273600000 then 1647273600000
              else addP1D eastern2022 (startOfDay eastern2022 1647273600000))})"
proof -
  have lt: "(1647104400000::int) < 1647273600000" by simp
  have run: "getDayBoundaries eastern2022 (Some 1647104400000) (Some 1647273600000)
       = Some (Inr [(1647061200000, 1647147600000), (1647147600000, 1647230400000),
                    (1647230400000, 1647316800000)])"
    by (simp add: getDayBoundaries_Some boundaryLoop.simps eastern2022_def msPerDay_def
        resolve2022_def easternOffset2022_def Let_def)
  from getDayBoundaries_segments [OF calendar_zone_eastern2022 lt]
    calendar_zone_eastern2022 lt run
  show ?thesis by blast
qed

text \<open>
  C1 as the specification words it fails when \<open>endTime\<close> is a start of day.
  From 2022-01-10 12:00 to 2022-01-12 00:00 Eastern Standard Time the segmenter
  returns the two days 10 and 11 January; the instant \<open>endTime\<close> lies in
  \<open>[start-of-day(startTime), start-of-day(endTime) + 1 day)\<close> and in neither
  interval.
\<close>

theorem getDayBoundaries_union_counterexample:
  "(1641834000000::int) < 1641963600000
   \<and> getDayBoundaries eastern2022 (Some 1641834000000) (Some 1641963600000)
     = Some (Inr [(1641790800000, 1641877200000), (1641877200000, 1641963600000)])
   \<and> 1641963600000 \<in> {startOfDay eastern2022 1641834000000..<
         addP1D eastern2022 (startOfDay eastern2022 1641963600000)}
   \<and> 1641963600000 \<notin> {1641790800000..<1641877200000::int}
   \<and> 1641963600000 \<notin> {1641877200000..<1641963600000::int}"
  by (simp add: getDayBoundaries_Some boundaryLoop.simps eastern2022_def msPerDay_def resolve2022_def
        easternOffset2022_def Let_def)


text \<open>
  C4: the per-day detector returns two entries per day, in the order of the
  days; for every day that holds a sample the first entry is a sample of that
  day with the least value and the second one a sample of that day with the
  greatest value.  For one day holding the values 5, 1, 9, 3 the result is the
  sample with value 1 followed by the sample with value 9.
\<close>

theorem getExtremePoints_coordinates_min_then_max:
  "length (getExtremePoints_coordinates bs pts) = 2 * length bs
   \<and> (\<forall>k<length bs. inBoundary pts (bs ! k) \<noteq> [] \<longrightarrow>
        (\<exists>pmin pmax.
            getExtremePoints_coordinates bs pts ! (2 * k) = Some pmin
          \<and> getExtremePoints_coordinates bs pts ! (2 * k + 1) = Some pmax
          \<and> pmin \<in> set (inBoundary pts (bs ! k))
          \<and> pmax \<in> set (inBoundary pts (bs ! k))
          \<and> (\<forall>q\<in>set (inBoundary pts (bs ! k)). value pmin \<le> value q \<and> value q \<le> value pmax)))
   \<and> getExtremePoints_coordinates [(0, 86400000)] series5193
        = [Some \<lparr>time = 3600000, value = 1, i = 1\<rparr>, Some \<lparr>time = 7200000, value = 9, i = 2\<rparr>]"
proof (intro conjI allI impI)
  show "length (getExtremePoints_coordinates bs pts) = 2 * length bs"
    by (rule getExtremePoints_coordinates_length)
next
  fix k
  assume k: "k < length bs" and ne: "inBoundary pts (bs ! k) \<noteq> []"
  let ?b = "inBoundary pts (bs ! k)"
  let ?lo = "minIndex ?b value" and ?hi = "maxIndex ?b value"
  note lo = minIndex_nonempty [OF ne, of "value"] and hi = maxIndex_nonempty [OF ne, of "value"]
  have "elemAt ?b ?lo = Some (?b ! nat ?lo)" "elemAt ?b ?hi = Some (?b ! nat ?hi)"
    using lo(1,2) hi(1,2) by (simp_all add: elemAt_def)
  moreover have "?b ! nat ?lo \<in> set ?b" "?b ! nat ?hi \<in> set ?b"
    using lo(1,2) hi(1,2) by simp_all
  ultimately show "\<exists>pmin pmax.
            getExtremePoints_coordinates bs pts ! (2 * k) = Some pmin
          \<and> getExtremePoints_coordinates bs pts ! (2 * k + 1) = Some pmax
          \<and> pmin \<in> set ?b \<and> pmax \<in> set ?b
          \<and> (\<forall>q\<in>set ?b. value pmin \<le> value q \<and> value q \<le> value pmax)"
    using lo(3) hi(3) getExtremePoints_coordinates_nth [OF k, of pts] by auto
next
  show "getExtremePoints_coordinates [(0, 86400000)] series5193
        = [Some \<lparr>time = 3600000, value = 1, i = 1\<rparr>, Some \<lparr>time = 7200000, value = 9, i = 2\<rparr>]"
    by (simp add: getExtremePoints_coordinates_def extremesInBoundary_def series5193_def
        minIndex_def maxIndex_def elemAt_def)
qed

theorem getExtremePoints_coordinates_min_then_max_witness:
  "(0::nat) < length [(0::int, 86400000::int)]
   \<and> inBoundary series5193 ([(0, 86400000)] ! 0) \<noteq> []
   \<and> (\<exists>pmin pmax.
            getExtremePoints_coordinates [(0, 86400000)] series5193 ! (2 * 0) = Some pmin
          \<and> getExtremePoints_coordinates [(0, 86400000)] series5193 ! (2 * 0 + 1) = Some pmax
          \<and> pmin \<in> set (inBoundary series5193 ([(0, 86400000)] ! 0))
          \<and> pmax \<in> set (inBoundary series5193 ([(0, 86400000)] ! 0))
          \<and> (\<forall>q\<in>set (inBoundary series5193 ([(0, 86400000)] ! 0)).
                value pmin \<le> value q \<and> value q \<le> value pmax))"
proof -
  have k: "(0::nat) < length [(0::int, 86400000::int)]" by simp
  have ne: "inBoundary series5193 ([(0, 86400000)] ! 0) \<noteq> []"
    by (simp add: inBoundary_def series5193_def)
  from getExtremePoints_coordinates_min_then_max [of "[(0, 86400000)]" series5193] k ne
  show ?thesis by blast
qed

text \<open>
  C10: for every day that holds exactly one sample, the per-day detector emits
  that sample twice, as the minimum and as the maximum of the day.
\<close>

theorem getExtremePoints_coordinates_single_sample:
  "\<forall>k<length bs. \<forall>p. inBoundary pts (bs ! k) = [p] \<longrightarrow>
       getExtremePoints_coordinates bs pts ! (2 * k) = Some p
     \<and> getExtremePoints_coordinates bs pts ! (2 * k + 1) = Some p"
proof (intro allI impI)
  fix k p
  assume k: "k < length bs" and one: "inBoundary pts (bs ! k) = [p]"
  have "elemAt [p] (minIndex [p] value) = Some p" "elemAt [p] (maxIndex [p] value) = Some p"
    by (simp_all add: minIndex_def maxIndex_def elemAt_def)
  with getExtremePoints_coordinates_nth [OF k, of pts] one
  show "getExtremePoints_coordinates bs pts ! (2 * k) = Some p
     \<and> getExtremePoints_coordinates bs pts ! (2 * k + 1) = Some p"
    by (simp only:)
qed

theorem getExtremePoints_coordinates_single_sample_witness:
  "(0::nat) < length [(0::int, 86400000::int)]
   \<and> inBoundary [\<lparr>time = 3600000, value = 4, i = 0\<rparr>] ([(0, 86400000)] ! 0)
       = [\<lparr>time = 3600000, value = 4, i = 0\<rparr>]
   \<and> getExtremePoints_coordinates [(0, 86400000)] [\<lparr>time = 3600000, value = 4, i = 0\<rparr>] ! (2 * 0)
       = Some \<lparr>time = 3600000, value = 4, i = 0\<rparr>
   \<and> getExtremePoints_coordinates [(0, 86400000)] [\<lparr>time = 3600000, value = 4, i = 0\<rparr>] ! (2 * 0 + 1)
       = Some \<lparr>time = 3600000, value = 4, i = 0\<rparr>"
proof -
  let ?p = "\<lparr>time = 3600000, value = 4, i = 0\<rparr>"
  let ?bs = "[(0::int, 86400000::int)]"
  have k: "(0::nat) < length ?bs" by simp
  have one: "inBoundary [?p] (?bs ! 0) = [?p]"
    by (simp add: inBoundary_def)
  from getExtremePoints_coordinates_single_sample [of ?bs "[?p]"] k one
  show ?thesis by blast
qed

text \<open>
  C2 does not hold of the code.  A day without samples makes \<open>minIndex\<close> and
  \<open>maxIndex\<close> return -1, and the detector, which has no guard, reads
  \<open>pointsInBoundary[-1]\<close> twice: the day contributes two \<open>undefined\<close>
  entries to a result declared \<open>Point[]\<close>.  The detector itself returns, but
  the chart then takes every entry apart as a point and throws a TypeError.
  Here the temperature series spans the two days 10 and 11 January 2022
  (Eastern Standard Time) and the dew point series has one sample, on the
  first of them.
\<close>

theorem getExtremePoints_coordinates_empty_bucket:
  "Chart_dayBoundaries eastern2022
     [\<lparr>label = ''Temperature'',
       points = [\<lparr>time = 1641834000000, value = 4, i = 0\<rparr>,
                 \<lparr>time = 1641950000000, value = 6, i = 1\<rparr>]\<rparr>,
      \<lparr>label = ''Dew Point'', points = [\<lparr>time = 1641834000000, value = 1, i = 0\<rparr>]\<rparr>]
     = Some (Inr [(1641790800000, 1641877200000), (1641877200000, 1641963600000)])
   \<and> inBoundary [\<lparr>time = 1641834000000, value = 1, i = 0\<rparr>] (1641877200000, 1641963600000) = []
   \<and> getExtremePoints_coordinates
        [(1641790800000, 1641877200000), (1641877200000, 1641963600000)]
        [\<lparr>time = 1641834000000, value = 1, i = 0\<rparr>]
       = [Some \<lparr>time = 1641834000000, value = 1, i = 0\<rparr>,
          Some \<lparr>time = 1641834000000, value = 1, i = 0\<rparr>, None, None]
   \<and> pointLabelPositionings_coordinates
        [(1641790800000, 1641877200000), (1641877200000, 1641963600000)]
        [\<lparr>time = 1641834000000, value = 1, i = 0\<rparr>]
       = Inl TypeError"
proof -
  have "Chart_xDomain
     [\<lparr>label = ''Temperature'',
       points = [\<lparr>time = 1641834000000, value = 4, i = 0\<rparr>,
                 \<lparr>time = 1641950000000, value = 6, i = 1\<rparr>]\<rparr>,
      \<lparr>label = ''Dew Point'', points = [\<lparr>time = 1641834000000, value = 1, i = 0\<rparr>]\<rparr>]
     = (Some 1641834000000, Some 1641950000000)"
    by (simp add: Chart_xDomain_def extent_def)
  then have "Chart_dayBoundaries eastern2022
     [\<lparr>label = ''Temperature'',
       points = [\<lparr>time = 1641834000000, value = 4, i = 0\<rparr>,
                 \<lparr>time = 1641950000000, value = 6, i = 1\<rparr>]\<rparr>,
      \<lparr>label = ''Dew Point'', points = [\<lparr>time = 1641834000000, value = 1, i = 0\<rparr>]\<rparr>]
     = Some (Inr [(1641790800000, 1641877200000), (1641877200000, 1641963600000)])"
    by (simp add: Chart_dayBoundaries_def getDayBoundaries_Some boundaryLoop.simps
        eastern2022_def msPerDay_def resolve2022_def
        easternOffset2022_def Let_def)
  moreover have "inBoundary [\<lparr>time = 1641834000000, value = 1, i = 0\<rparr>]
      (1641877200000, 1641963600000) = []"
    by (simp add: inBoundary_def)
  moreover have "getExtremePoints_coordinates
        [(1641790800000, 1641877200000), (1641877200000, 1641963600000)]
        [\<lparr>time = 1641834000000, value = 1, i = 0\<rparr>]
       = [Some \<lparr>time = 1641834000000, value = 1, i = 0\<rparr>,
          Some \<lparr>time = 1641834000000, value = 1, i = 0\<rparr>, None, None]"
    by (simp add: getExtremePoints_coordinates_def extremesInBoundary_def minIndex_def
        maxIndex_def elemAt_def)
  moreover from this have "pointLabelPositionings_coordinates
        [(1641790800000, 1641877200000), (1641877200000, 1641963600000)]
        [\<lparr>time = 1641834000000, value = 1, i = 0\<rparr>]
       = Inl TypeError"
    by (simp add: pointLabelPositionings_coordinates_def
        getPointLabelPositioning_coordinates_def pointLabelPositioning_def)
  ultimately show ?thesis by simp
qed


text \<open>
  C3, as the code has it: under the inflection policy the flagged samples are,
  in order, the samples at the positions that have both neighbours and whose
  value is strictly less than both neighbours' values or strictly greater than
  both; the first and the last sample of a series are never flagged.  In the
  series 1, 3, 2, 5, 1 the samples at indices 1, 2 and 3 are flagged (the value
  2 at index 2 is strictly less than 3 and 5), and after the collapse of
  adjacent flags the detector returns the sample at index 1 alone.
\<close>

theorem inflectionPoints_strict_extrema:
  "inflectionPoints pts
     = map ((!) pts)
         (filter (\<lambda>k. 0 < k \<and> k + 1 < length pts
              \<and> (value (pts ! k) < value (pts ! (k - 1)) \<and> value (pts ! k) < value (pts ! (k + 1))
                 \<or> value (pts ! k) > value (pts ! (k - 1)) \<and> value (pts ! k) > value (pts ! (k + 1))))
            [0..<length pts])
   \<and> (\<forall>k<length pts. k = 0 \<or> k = length pts - 1 \<longrightarrow> \<not> isInflection (pts ! k) (int k) pts)
   \<and> map i (inflectionPoints series13251) = [1, 2, 3]
   \<and> map i (getExtremePoints series13251) = [1]"
proof (intro conjI allI impI)
  show "inflectionPoints pts
     = map ((!) pts)
         (filter (\<lambda>k. 0 < k \<and> k + 1 < length pts
              \<and> (value (pts ! k) < value (pts ! (k - 1)) \<and> value (pts ! k) < value (pts ! (k + 1))
                 \<or> value (pts ! k) > value (pts ! (k - 1)) \<and> value (pts ! k) > value (pts ! (k + 1))))
            [0..<length pts])"
    unfolding inflectionPoints_def filteri_nth
    by (rule arg_cong [where f = "map ((!) pts)"], rule filter_cong) (simp_all add: isInflection_nth)
next
  fix k assume "k < length pts" and "k = 0 \<or> k = length pts - 1"
  then show "\<not> isInflection (pts ! k) (int k) pts"
    by (auto simp: isInflection_nth)
next
  show "map i (inflectionPoints series13251) = [1, 2, 3]" by (rule series13251_flagged)
  show "map i (getExtremePoints series13251) = [1]" by (rule series13251_extreme)
qed

theorem inflectionPoints_strict_extrema_witness:
  "(0::nat) < length series13251
   \<and> \<not> isInflection (series13251 ! 0) (int 0) series13251
   \<and> map i (inflectionPoints series13251) = [1, 2, 3]"
proof -
  have len: "(0::nat) < length series13251" by (simp add: series13251_def)
  from inflectionPoints_strict_extrema [of series13251] len show ?thesis by blast
qed

text \<open>
  C3 as the specification words it names the indices 1 and 3 for the series
  1, 3, 2, 5, 1.  Neither the flagged samples nor the result of the detector
  are these: the sample at index 2 is flagged as well.
\<close>

theorem inflectionPoints_example_counterexample:
  "map i (inflectionPoints series13251) \<noteq> [1, 3]
   \<and> i (series13251 ! 2) = 2
   \<and> series13251 ! 2 \<in> set (inflectionPoints series13251)
   \<and> map i (getExtremePoints series13251) \<noteq> [1, 3]"
  by (simp add: getExtremePoints_def notTooClose_def inflectionPoints_def filteri_def
      series13251_def isInflection_def valueAt_def elemAt_def numLess_def numGreater_def upt_rec)

text \<open>
  C8: after flagging, a flagged sample is dropped exactly when the flagged
  sample before it has the index one less, so of every run of flagged samples
  with consecutive indices only the first is kept.  For a series whose samples
  carry their positions as indices: a flagged sample is in the result exactly
  when no flagged sample has the index one less.
\<close>

theorem getExtremePoints_keeps_first_of_run:
  "getExtremePoints pts
     = map ((!) (inflectionPoints pts))
         (filter (\<lambda>k. k = 0
              \<or> i (inflectionPoints pts ! (k - 1)) \<noteq> i (inflectionPoints pts ! k) - 1)
            [0..<length (inflectionPoints pts)])
   \<and> ((\<forall>k<length pts. i (pts ! k) = int k) \<longrightarrow>
        (\<forall>p\<in>set (inflectionPoints pts).
            p \<in> set (getExtremePoints pts) \<longleftrightarrow> \<not> (\<exists>q\<in>set (inflectionPoints pts). i q = i p - 1)))"
proof (intro conjI impI ballI)
  show "getExtremePoints pts
     = map ((!) (inflectionPoints pts))
         (filter (\<lambda>k. k = 0
              \<or> i (inflectionPoints pts ! (k - 1)) \<noteq> i (inflectionPoints pts ! k) - 1)
            [0..<length (inflectionPoints pts)])"
    unfolding getExtremePoints_def filteri_nth [of notTooClose]
    by (rule arg_cong [where f = "map ((!) (inflectionPoints pts))"], rule filter_cong)
      (simp_all add: notTooClose_nth)
next
  fix p
  assume "\<forall>k<length pts. i (pts ! k) = int k" and "p \<in> set (inflectionPoints pts)"
  then show "p \<in> set (getExtremePoints pts) \<longleftrightarrow> \<not> (\<exists>q\<in>set (inflectionPoints pts). i q = i p - 1)"
    unfolding getExtremePoints_def
    by (intro collapse_first_of_run inflectionPoints_increasing)
qed

theorem getExtremePoints_keeps_first_of_run_witness:
  "series13251 ! 1 \<in> set (inflectionPoints series13251)
   \<and> series13251 ! 2 \<in> set (inflectionPoints series13251)
   \<and> i (series13251 ! 1) = i (series13251 ! 2) - 1
   \<and> series13251 ! 2 \<notin> set (getExtremePoints series13251)"
proof -
  have F: "series13251 ! 1 \<in> set (inflectionPoints series13251)"
    "series13251 ! 2 \<in> set (inflectionPoints series13251)"
    by (simp_all add: inflectionPoints_def filteri_def series13251_def isInflection_def
        valueAt_def elemAt_def numLess_def numGreater_def upt_rec)
  have idx: "i (series13251 ! 1) = i (series13251 ! 2) - 1"
    by (simp add: series13251_def)
  from getExtremePoints_keeps_first_of_run [of series13251] series13251_invariant F idx
  show ?thesis by blast
qed

text \<open>
  C5: for a sample that carries its position \<open>k\<close> as index, the label placement
  is: offset (0, 0) with no anchor and no baseline when the sample is the first
  or the last of the series; otherwise anchor middle and \<open>dy = -D\<close> when both
  neighbours are strictly lower, anchor middle, baseline hanging and
  \<open>dy = +D\<close> when both are strictly higher, and offset (0, 0) with no anchor
  and no baseline when the value equals a neighbour's.  \<open>D\<close> is 10 in the chart
  component and 6 in \<open>[coordinates].tsx\<close>.
\<close>

theorem getPointLabelPositioning_placement:
  assumes "k < length ps" and "i pt = int k"
  shows "(k = 0 \<or> k = length ps - 1 \<longrightarrow>
            getPointLabelPositioning pt ps
              = Inr \<lparr>dx = 0, dy = 0, textAnchor = None, alignmentBaseline = None\<rparr>
          \<and> getPointLabelPositioning_coordinates (Some pt) ps
              = Inr \<lparr>dx = 0, dy = 0, textAnchor = None, alignmentBaseline = None\<rparr>)
       \<and> (0 < k \<and> k < length ps - 1 \<longrightarrow>
            (value (ps ! (k - 1)) < value pt \<and> value (ps ! (k + 1)) < value pt \<longrightarrow>
               getPointLabelPositioning pt ps
                 = Inr \<lparr>dx = 0, dy = - 10, textAnchor = Some AnchorMiddle, alignmentBaseline = None\<rparr>
             \<and> getPointLabelPositioning_coordinates (Some pt) ps
                 = Inr \<lparr>dx = 0, dy = - 6, textAnchor = Some AnchorMiddle, alignmentBaseline = None\<rparr>)
          \<and> (value (ps ! (k - 1)) > value pt \<and> value (ps ! (k + 1)) > value pt \<longrightarrow>
               getPointLabelPositioning pt ps
                 = Inr \<lparr>dx = 0, dy = 10, textAnchor = Some AnchorMiddle,
                        alignmentBaseline = Some BaselineHanging\<rparr>
             \<and> getPointLabelPositioning_coordinates (Some pt) ps
                 = Inr \<lparr>dx = 0, dy = 6, textAnchor = Some AnchorMiddle,
                        alignmentBaseline = Some BaselineHanging\<rparr>)
          \<and> (value (ps ! (k - 1)) = value pt \<or> value (ps ! (k + 1)) = value pt \<longrightarrow>
               getPointLabelPositioning pt ps
                 = Inr \<lparr>dx = 0, dy = 0, textAnchor = None, alignmentBaseline = None\<rparr>
             \<and> getPointLabelPositioning_coordinates (Some pt) ps
                 = Inr \<lparr>dx = 0, dy = 0, textAnchor = None, alignmentBaseline = None\<rparr>))"
proof (intro conjI impI)
  assume "k = 0 \<or> k = length ps - 1"
  with assms have "i pt = 0 \<or> i pt = int (length ps) - 1"
    by auto
  then show "getPointLabelPositioning pt ps
      = Inr \<lparr>dx = 0, dy = 0, textAnchor = None, alignmentBaseline = None\<rparr>"
    and "getPointLabelPositioning_coordinates (Some pt) ps
      = Inr \<lparr>dx = 0, dy = 0, textAnchor = None, alignmentBaseline = None\<rparr>"
    by (simp_all add: getPointLabelPositioning_def getPointLabelPositioning_coordinates_def
        pointLabelPositioning_def)
next
  assume inner: "0 < k \<and> k < length ps - 1"
  with assms have nb: "\<not> (i pt = 0 \<or> i pt = int (length ps) - 1)"
    by auto
  from inner assms have l: "elemAt ps (i pt - 1) = Some (ps ! (k - 1))"
    and r: "elemAt ps (i pt + 1) = Some (ps ! (k + 1))"
    by (auto simp: elemAt_def nat_diff_distrib' nat_add_distrib)
  have unfold: "pointLabelPositioning D pt ps =
     (let p = value pt; p0 = value (ps ! (k - 1)); p1 = value (ps ! (k + 1)) in
      if p0 < p \<and> p1 < p then
        Inr \<lparr>dx = 0, dy = - D, textAnchor = Some AnchorMiddle, alignmentBaseline = None\<rparr>
      else if p0 > p \<and> p1 > p then
        Inr \<lparr>dx = 0, dy = D, textAnchor = Some AnchorMiddle,
             alignmentBaseline = Some BaselineHanging\<rparr>
      else if p0 < p \<and> p1 > p then
        Inr \<lparr>dx = - D, dy = - D, textAnchor = Some AnchorEnd,
             alignmentBaseline = Some BaselineMiddle\<rparr>
      else if p0 > p \<and> p1 < p then
        Inr \<lparr>dx = D, dy = - D, textAnchor = Some AnchorStart,
             alignmentBaseline = Some BaselineMiddle\<rparr>
      else Inr \<lparr>dx = 0, dy = 0, textAnchor = None, alignmentBaseline = None\<rparr>)" for D
    using nb by (simp add: pointLabelPositioning_def l r)
  {
    assume "value (ps ! (k - 1)) < value pt \<and> value (ps ! (k + 1)) < value pt"
    then show "getPointLabelPositioning pt ps
        = Inr \<lparr>dx = 0, dy = - 10, textAnchor = Some AnchorMiddle, alignmentBaseline = None\<rparr>"
      and "getPointLabelPositioning_coordinates (Some pt) ps
        = Inr \<lparr>dx = 0, dy = - 6, textAnchor = Some AnchorMiddle, alignmentBaseline = None\<rparr>"
      by (simp_all add: getPointLabelPositioning_def getPointLabelPositioning_coordinates_def unfold)
  next
    assume "value (ps ! (k - 1)) > value pt \<and> value (ps ! (k + 1)) > value pt"
    then show "getPointLabelPositioning pt ps
        = Inr \<lparr>dx = 0, dy = 10, textAnchor = Some AnchorMiddle,
               alignmentBaseline = Some BaselineHanging\<rparr>"
      and "getPointLabelPositioning_coordinates (Some pt) ps
        = Inr \<lparr>dx = 0, dy = 6, textAnchor = Some AnchorMiddle,
               alignmentBaseline = Some BaselineHanging\<rparr>"
      by (simp_all add: getPointLabelPositioning_def getPointLabelPositioning_coordinates_def unfold)
  next
    assume "value (ps ! (k - 1)) = value pt \<or> value (ps ! (k + 1)) = value pt"
    then show "getPointLabelPositioning pt ps
        = Inr \<lparr>dx = 0, dy = 0, textAnchor = None, alignmentBaseline = None\<rparr>"
      and "getPointLabelPositioning_coordinates (Some pt) ps
        = Inr \<lparr>dx = 0, dy = 0, textAnchor = None, alignmentBaseline = None\<rparr>"
      by (auto simp: getPointLabelPositioning_def getPointLabelPositioning_coordinates_def unfold)
  }
qed

theorem getPointLabelPositioning_placement_witness:
  "(1::nat) < length series13251 \<and> i (series13251 ! 1) = int 1
   \<and> (0::nat) < 1 \<and> 1 < length series13251 - 1
   \<and> value (series13251 ! (1 - 1)) < value (series13251 ! 1)
   \<and> value (series13251 ! (1 + 1)) < value (series13251 ! 1)
   \<and> getPointLabelPositioning (series13251 ! 1) series13251
       = Inr \<lparr>dx = 0, dy = - 10, textAnchor = Some AnchorMiddle, alignmentBaseline = None\<rparr>
   \<and> getPointLabelPositioning_coordinates (Some (series13251 ! 1)) series13251
       = Inr \<lparr>dx = 0, dy = - 6, textAnchor = Some AnchorMiddle, alignmentBaseline = None\<rparr>"
proof -
  have a: "(1::nat) < length series13251" and b: "i (series13251 ! 1) = int 1"
    and c: "(0::nat) < 1 \<and> 1 < length series13251 - 1"
    and d: "value (series13251 ! (1 - 1)) < value (series13251 ! 1)
      \<and> value (series13251 ! (1 + 1)) < value (series13251 ! 1)"
    by (simp_all add: series13251_def)
  from getPointLabelPositioning_placement [OF a b] c d a b
  show ?thesis by blast
qed





text \<open>
  C7, as the code has it: when the series hold no sample at all, the domain
  computation does not fail and yields the pair of \<open>undefined\<close> ends for the
  times and for the values (there is no NoDataError and no degenerate domain),
  and the day segmenter, called with these ends, stops with a RangeError.
\<close>

theorem Chart_no_samples:
  "concat (map points tss) = [] \<longrightarrow>
     Chart_xDomain tss = (None, None)
   \<and> Chart_yDomain tss = (None, None)
   \<and> Chart_dayBoundaries tz tss = Some (Inl RangeError)"
proof
  assume e: "concat (map points tss) = []"
  have x: "Chart_xDomain tss = (None, None)"
    by (simp only: Chart_xDomain_def Let_def e extent_Nil)
  have y: "Chart_yDomain tss = (None, None)"
    by (simp only: Chart_yDomain_def Let_def e extent_Nil)
  have "Chart_dayBoundaries tz tss = Some (Inl RangeError)"
    by (simp add: Chart_dayBoundaries_def x getDayBoundaries_def fromEpochMilliseconds_def)
  with x y show "Chart_xDomain tss = (None, None) \<and> Chart_yDomain tss = (None, None)
      \<and> Chart_dayBoundaries tz tss = Some (Inl RangeError)"
    by simp
qed

theorem Chart_no_samples_witness:
  "concat (map points [\<lparr>label = ''Temperature'', points = []\<rparr>]) = []
   \<and> Chart_xDomain [\<lparr>label = ''Temperature'', points = []\<rparr>] = (None, None)
   \<and> Chart_yDomain [\<lparr>label = ''Temperature'', points = []\<rparr>] = (None, None)
   \<and> Chart_dayBoundaries eastern2022 [\<lparr>label = ''Temperature'', points = []\<rparr>]
       = Some (Inl RangeError)"
proof -
  let ?tss = "[\<lparr>label = ''Temperature'', points = []\<rparr>]"
  have e: "concat (map points ?tss) = []" by simp
  from Chart_no_samples [of ?tss eastern2022] e show ?thesis by blast
qed

text \<open>
  C7 as the specification words it fails for two series without samples: the
  domain is the undefined range, and the day segmenter throws.
\<close>

theorem Chart_no_samples_counterexample:
  "Chart_xDomain [\<lparr>label = ''Temperature'', points = []\<rparr>, \<lparr>label = ''Dew Point'', points = []\<rparr>]
     = (None, None)
   \<and> Chart_yDomain [\<lparr>label = ''Temperature'', points = []\<rparr>, \<lparr>label = ''Dew Point'', points = []\<rparr>]
     = (None, None)
   \<and> Chart_dayBoundaries eastern2022
        [\<lparr>label = ''Temperature'', points = []\<rparr>, \<lparr>label = ''Dew Point'', points = []\<rparr>]
     = Some (Inl RangeError)"
  by (simp add: Chart_xDomain_def Chart_yDomain_def Chart_dayBoundaries_def extent_def
      getDayBoundaries_def fromEpochMilliseconds_def)


end
